theory Spec2Isabelle
  imports Main
begin

section \<open>Python values shared by the three scrapers\<close>

text \<open>
  The three scripts (\<^verbatim>\<open>sifang_crawler.py\<close>, the MeituSpider script and the ku1372 script)
  are site scrapers: their logic is control flow around HTTP requests, HTML parsing and the
  file system. The embedding keeps that control flow and turns everything the outside world
  decides into an explicit input:
  \<^item> a Python \<^verbatim>\<open>str\<close> or \<^verbatim>\<open>bytes\<close> is a \<^typ>\<open>string\<close>, read as its UTF-8 bytes
    (a substring test on code points and on their UTF-8 bytes agree);
  \<^item> the answers of the network are a list, one entry per request the code issues, consumed
    in order; a loop that asks for an answer the list no longer holds has not returned yet,
    which is the value \<open>Stalled\<close>;
  \<^item> the file system is a map from paths to file contents, together with the list of the
    operations performed on it;
  \<^item> an exception is a value \<open>Raised e\<close>;
  \<^item> \<^verbatim>\<open>time.sleep\<close>, logging and the progress display have no effect on any value below and
    are left out; the tasks of a thread pool are run one after the other in submission
    order.
\<close>

datatype exn =
    AttributeError | TypeError | ValueError | NameError | OSError | EOFError
  | RequestException | ConnectionError

datatype 'a outcome = Returned 'a | Raised exn | Stalled

datatype fsop = Wrote string | Appended string | Removed string | Moved string string

record world =
  files :: "string \<rightharpoonup> string"
  fsops :: "fsop list"
  requests :: "string list"

definition path_exists :: "('a world_scheme) \<Rightarrow> string \<Rightarrow> bool" where
  "path_exists w p = (files w p \<noteq> None)"

definition write_file :: "string \<Rightarrow> string \<Rightarrow> 'a world_scheme \<Rightarrow> 'a world_scheme" where
  "write_file p b w = w\<lparr>files := (files w)(p \<mapsto> b), fsops := fsops w @ [Wrote p]\<rparr>"

definition remove_file :: "string \<Rightarrow> 'a world_scheme \<Rightarrow> 'a world_scheme" where
  "remove_file p w = w\<lparr>files := (files w)(p := None), fsops := fsops w @ [Removed p]\<rparr>"

definition move_file :: "string \<Rightarrow> string \<Rightarrow> 'a world_scheme \<Rightarrow> 'a world_scheme" where
  "move_file p q w =
     w\<lparr>files := (files w)(q := files w p, p := None), fsops := fsops w @ [Moved p q]\<rparr>"

definition append_file :: "string \<Rightarrow> string \<Rightarrow> 'a world_scheme \<Rightarrow> 'a world_scheme" where
  "append_file p b w =
     w\<lparr>files := (files w)(p \<mapsto> (case files w p of None \<Rightarrow> b | Some old \<Rightarrow> old @ b)),
       fsops := fsops w @ [Appended p]\<rparr>"

definition request :: "string \<Rightarrow> 'a world_scheme \<Rightarrow> 'a world_scheme" where
  "request url w = w\<lparr>requests := requests w @ [url]\<rparr>"

subsection \<open>String operations\<close>

definition startswith :: "string \<Rightarrow> string \<Rightarrow> bool" where
  "startswith s p = (take (length p) s = p)"

definition endswith :: "string \<Rightarrow> string \<Rightarrow> bool" where
  "endswith s p = (length p \<le> length s \<and> drop (length s - length p) s = p)"

text \<open>\<open>contains p s\<close> is Python's \<^verbatim>\<open>p in s\<close>.\<close>

fun contains :: "string \<Rightarrow> string \<Rightarrow> bool" where
  "contains p [] = (p = [])"
| "contains p (c # s) = (startswith (c # s) p \<or> contains p s)"

definition isspace :: "char \<Rightarrow> bool" where
  "isspace c = (c \<in> set [CHR '' '', CHR 0x09, CHR 0x0A, CHR 0x0B, CHR 0x0C, CHR 0x0D,
                          CHR 0x1C, CHR 0x1D, CHR 0x1E, CHR 0x1F])"

definition strip :: "string \<Rightarrow> string" where
  "strip s = rev (dropWhile isspace (rev (dropWhile isspace s)))"

text \<open>\<^verbatim>\<open>s.lower()\<close>, on the ASCII letters.\<close>

definition lower_char :: "char \<Rightarrow> char" where
  "lower_char c =
     (case map_of (zip ''ABCDEFGHIJKLMNOPQRSTUVWXYZ'' ''abcdefghijklmnopqrstuvwxyz'') c of
        None \<Rightarrow> c | Some l \<Rightarrow> l)"

definition lower :: "string \<Rightarrow> string" where
  "lower s = map lower_char s"

text \<open>\<open>str_split sep s\<close> is \<^verbatim>\<open>s.split(sep)\<close> for a non-empty separator.\<close>

function split_from :: "string \<Rightarrow> string \<Rightarrow> string \<Rightarrow> string list" where
  "split_from sep cur [] = [cur]"
| "split_from sep cur (c # s) =
     (if sep \<noteq> [] \<and> startswith (c # s) sep
      then cur # split_from sep [] (drop (length sep) (c # s))
      else split_from sep (cur @ [c]) s)"
  by pat_completeness auto
termination
  by (relation "measure (\<lambda>(sep, cur, s). length s)") auto

definition str_split :: "string \<Rightarrow> string \<Rightarrow> string list" where
  "str_split sep s = split_from sep [] s"


text \<open>\<open>zfill3 n\<close> is the format \<^verbatim>\<open>f"{n:03d}"\<close>.\<close>

fun digits :: "nat \<Rightarrow> string" where
  "digits n =
     (if n < 10 then [''0123456789'' ! n]
      else digits (n div 10) @ [''0123456789'' ! (n mod 10)])"

definition zfill3 :: "nat \<Rightarrow> string" where
  "zfill3 n = replicate (3 - length (digits n)) CHR ''0'' @ digits n"

text \<open>\<^verbatim>\<open>os.path.join(a, b)\<close> with the separator \<^verbatim>\<open>/\<close>.\<close>

definition path_join :: "string \<Rightarrow> string \<Rightarrow> string" where
  "path_join a b =
     (if startswith b ''/'' then b
      else if a = [] \<or> endswith a ''/'' then a @ b
      else a @ ''/'' @ b)"

section \<open>MeituSpider\<close>

text \<open>
  What the code reads of a response: the \<^verbatim>\<open>Content-Type\<close> header (\<^verbatim>\<open>""\<close> when absent), the
  body, and of the parsed body the three selections the spider makes:
  the album elements \<^verbatim>\<open>.videos-list-wrap .video-item-col\<close> (each with its \<^verbatim>\<open>href\<close> and the
  text of its \<^verbatim>\<open>.video-desc-content\<close> child, when present), the element
  \<^verbatim>\<open>.mo-paging .paging-item--next\<close> (when present, with its \<^verbatim>\<open>href\<close>) and the element
  \<^verbatim>\<open>#book-pages\<close> (when present, with its \<^verbatim>\<open>data-screenshots\<close> attribute).
\<close>

record document =
  album_elements :: "(string option \<times> string option) list"
  paging_next :: "string option option"
  book_pages :: "string option option"

record response =
  content_type :: string
  content :: string
  parsed :: document

record spider = world +
  m_save_path :: string
  m_verify :: bool
  m_failed_images :: "(string \<times> string) list"
  m_failed_albums :: "(string \<times> string) list"

definition base_url :: string where
  "base_url = ''https://xn--drdgbhrb-xx6n10qjm3s.tljkd-01.sbs''"

text \<open>
  \<^verbatim>\<open>_get_response(url, retries)\<close>: one entry of the answer list per \<^verbatim>\<open>session.get\<close>;
  \<open>None\<close> is a request (or its \<^verbatim>\<open>raise_for_status\<close>) that raised.
\<close>

fun meitu_get_response_from ::
  "nat \<Rightarrow> nat \<Rightarrow> string \<Rightarrow> response option list \<Rightarrow> spider \<Rightarrow> response option outcome \<times> spider"
where
  "meitu_get_response_from i retries url [] s =
     (if i < retries then (Stalled, s) else (Returned None, s))"
| "meitu_get_response_from i retries url (a # as) s =
     (if i < retries then
        (case a of
           Some r \<Rightarrow> (Returned (Some r), request url s)
         | None \<Rightarrow>
             if i < retries - 1
             then meitu_get_response_from (Suc i) retries url as (request url s)
             else (Returned None, request url s))
      else (Returned None, s))"

definition meitu_get_response ::
  "string \<Rightarrow> nat \<Rightarrow> response option list \<Rightarrow> spider \<Rightarrow> response option outcome \<times> spider"
where
  "meitu_get_response url retries as s = meitu_get_response_from 0 retries url as s"

text \<open>\<^verbatim>\<open>_parse_albums(url)\<close>: the albums of a listing page and its next-page link.\<close>

fun album_of_element :: "string option \<times> string option \<Rightarrow> (string \<times> string) list" where
  "album_of_element (album_url, None) = []"
| "album_of_element (None, Some text) = []"
| "album_of_element (Some album_url, Some text) =
     (let album_title = strip text
      in if album_url \<noteq> [] \<and> album_title \<noteq> []
         then [(album_title, base_url @ album_url)] else [])"

definition next_page_of :: "document \<Rightarrow> string option" where
  "next_page_of d =
     (case paging_next d of
        Some (Some href) \<Rightarrow> if href \<noteq> [] then Some (base_url @ href) else None
      | _ \<Rightarrow> None)"

definition meitu_parse_albums ::
  "string \<Rightarrow> response option list \<Rightarrow> spider
     \<Rightarrow> ((string \<times> string) list \<times> string option) outcome \<times> spider"
where
  "meitu_parse_albums url as s =
     (case meitu_get_response url 5 as s of
        (Stalled, s1) \<Rightarrow> (Stalled, s1)
      | (Raised e, s1) \<Rightarrow> (Raised e, s1)
      | (Returned None, s1) \<Rightarrow> (Returned ([], None), s1)
      | (Returned (Some response), s1) \<Rightarrow>
          (Returned (concat (map album_of_element (album_elements (parsed response))),
                     next_page_of (parsed response)), s1))"

text \<open>
  \<^verbatim>\<open>_parse_album_images(album_url)\<close>. The source reads \<^verbatim>\<open>response.text\<close> with no test
  of \<^verbatim>\<open>response\<close>: on \<open>None\<close> that is an AttributeError.
\<close>

fun screenshot_urls :: "string list \<Rightarrow> string list" where
  "screenshot_urls [] = []"
| "screenshot_urls (img_url # rest) =
     (let img_url = strip img_url
      in if img_url \<noteq> []
         then (if startswith img_url ''$'' then tl img_url else img_url) # screenshot_urls rest
         else screenshot_urls rest)"

definition images_of_document :: "document \<Rightarrow> string list" where
  "images_of_document d =
     (case book_pages d of
        None \<Rightarrow> []
      | Some attr \<Rightarrow>
          (let screenshots = (case attr of None \<Rightarrow> [] | Some v \<Rightarrow> v)
           in if screenshots = [] then []
              else screenshot_urls (str_split ''#$'' screenshots)))"

definition meitu_parse_album_images ::
  "string \<Rightarrow> response option list \<Rightarrow> spider \<Rightarrow> string list outcome \<times> spider"
where
  "meitu_parse_album_images album_url as s =
     (case meitu_get_response album_url 5 as s of
        (Stalled, s1) \<Rightarrow> (Stalled, s1)
      | (Raised e, s1) \<Rightarrow> (Raised e, s1)
      | (Returned None, s1) \<Rightarrow> (Raised AttributeError, s1)
      | (Returned (Some response), s1) \<Rightarrow>
          (Returned (images_of_document (parsed response)), s1))"

text \<open>
  \<^verbatim>\<open>_download_image(img_url, save_path)\<close>. \<open>pil\<close> is the verdict of PIL's
  \<^verbatim>\<open>Image.open(..).verify()\<close> on the bytes of a file. What the disk does is an input:
  whether \<^verbatim>\<open>os.makedirs\<close> succeeds, whether writing the temporary file succeeds (a failed
  write leaves the bytes written so far, or no file when \<^verbatim>\<open>open\<close> failed), and whether
  \<^verbatim>\<open>os.remove\<close> and \<^verbatim>\<open>os.rename\<close> succeed.
\<close>

datatype written = Write_ok | Write_fails "string option"

record disk =
  makedirs_ok :: bool
  write_result :: written
  remove_ok :: bool
  rename_ok :: bool

definition meitu_validate_image :: "(string \<Rightarrow> bool) \<Rightarrow> spider \<Rightarrow> string \<Rightarrow> bool" where
  "meitu_validate_image pil s image_path =
     (case files s image_path of None \<Rightarrow> False | Some b \<Rightarrow> pil b)"

definition failed_image :: "string \<Rightarrow> string \<Rightarrow> spider \<Rightarrow> spider" where
  "failed_image img_url save_path s =
     s\<lparr>m_failed_images := m_failed_images s @ [(img_url, save_path)]\<rparr>"

definition meitu_download_image ::
  "(string \<Rightarrow> bool) \<Rightarrow> string \<Rightarrow> string \<Rightarrow> response option list \<Rightarrow> disk \<Rightarrow> spider
     \<Rightarrow> bool outcome \<times> spider"
where
  "meitu_download_image pil img_url save_path as d s =
     (if path_exists s save_path then (Returned True, s)
      else
        case meitu_get_response img_url 5 as s of
          (Stalled, s1) \<Rightarrow> (Stalled, s1)
        | (Raised e, s1) \<Rightarrow> (Raised e, s1)
        | (Returned None, s1) \<Rightarrow> (Returned False, failed_image img_url save_path s1)
        | (Returned (Some response), s1) \<Rightarrow>
            if \<not> startswith (content_type response) ''image/''
            then (Returned False, failed_image img_url save_path s1)
            else if \<not> makedirs_ok d then (Raised OSError, s1)
            else
              (let temp_path = save_path @ ''.tmp'' in
               (case write_result d of
                  Write_fails partial \<Rightarrow>
                    (Returned False,
                     failed_image img_url save_path
                       (case partial of None \<Rightarrow> s1 | Some b \<Rightarrow> write_file temp_path b s1))
                | Write_ok \<Rightarrow>
                    (let s2 = write_file temp_path (content response) s1 in
                     if m_verify s2 \<and> \<not> meitu_validate_image pil s2 temp_path then
                       (if remove_ok d
                        then (Returned False,
                              failed_image img_url save_path (remove_file temp_path s2))
                        else (Raised OSError, s2))
                     else if rename_ok d then (Returned True, move_file temp_path save_path s2)
                     else if remove_ok d
                     then (Returned False,
                           failed_image img_url save_path (remove_file temp_path s2))
                     else (Raised OSError, s2)))))"

text \<open>
  \<^verbatim>\<open>_download_album(album_info, ..)\<close>. Each image has its own answers and disk. The loop
  over the finished tasks catches what a task raised, so only a task that has not returned
  keeps the album from returning.
\<close>

record image_env =
  img_answers :: "response option list"
  img_disk :: disk

definition no_answers :: image_env where
  "no_answers = \<lparr>img_answers = [],
     img_disk = \<lparr>makedirs_ok = True, write_result = Write_ok, remove_ok = True, rename_ok = True\<rparr>\<rparr>"

fun meitu_download_images ::
  "(string \<Rightarrow> bool) \<Rightarrow> string \<Rightarrow> nat \<Rightarrow> string list \<Rightarrow> image_env list \<Rightarrow> spider
     \<Rightarrow> unit outcome \<times> spider"
where
  "meitu_download_images pil album_dir img_index [] envs s = (Returned (), s)"
| "meitu_download_images pil album_dir img_index (img_url # rest) envs s =
     (let img_name = zfill3 (img_index + 1) @ ''.jpg'';
          img_path = path_join album_dir img_name;
          env = (case envs of [] \<Rightarrow> no_answers | e # _ \<Rightarrow> e)
      in case meitu_download_image pil img_url img_path (img_answers env) (img_disk env) s of
           (Stalled, s1) \<Rightarrow> (Stalled, s1)
         | (_, s1) \<Rightarrow> meitu_download_images pil album_dir (img_index + 1) rest (tl envs) s1)"

definition safe_title :: "string \<Rightarrow> string" where
  "safe_title album_title =
     take 50 (filter (\<lambda>c. c \<notin> set [CHR ''<'', CHR ''>'', CHR 0x22, CHR ''/'', CHR 0x5C,
                                      CHR ''|'', CHR ''?'', CHR ''*'']) album_title)"

definition meitu_download_album ::
  "(string \<Rightarrow> bool) \<Rightarrow> string \<times> string \<Rightarrow> bool \<Rightarrow> response option list \<Rightarrow> image_env list
     \<Rightarrow> spider \<Rightarrow> bool outcome \<times> spider"
where
  "meitu_download_album pil album_info mkdir_ok as envs s =
     (let album_title = fst album_info; album_url = snd album_info;
          album_dir = path_join (m_save_path s) (safe_title album_title)
      in if \<not> mkdir_ok then (Raised OSError, s)
         else
           case meitu_parse_album_images album_url as s of
             (Stalled, s1) \<Rightarrow> (Stalled, s1)
           | (Raised e, s1) \<Rightarrow> (Raised e, s1)
           | (Returned images, s1) \<Rightarrow>
               if images = []
               then (Returned False, s1\<lparr>m_failed_albums := m_failed_albums s1 @ [album_info]\<rparr>)
               else
                 (case meitu_download_images pil album_dir 0 images envs s1 of
                    (Returned u, s2) \<Rightarrow> (Returned True, s2)
                  | (Raised e, s2) \<Rightarrow> (Raised e, s2)
                  | (Stalled, s2) \<Rightarrow> (Stalled, s2)))"

text \<open>
  \<^verbatim>\<open>run()\<close>, first the listing loop. \<open>processed_urls\<close> is kept in the order of the visits.
  Each visited page has its own answers.
\<close>

fun meitu_listing ::
  "string option \<Rightarrow> string list \<Rightarrow> (string \<times> string) list \<Rightarrow> response option list list \<Rightarrow> spider
     \<Rightarrow> ((string \<times> string) list \<times> string list) outcome \<times> spider"
where
  "meitu_listing current_url processed_urls all_albums [] s =
     (case current_url of
        None \<Rightarrow> (Returned (all_albums, processed_urls), s)
      | Some url \<Rightarrow>
          if url \<noteq> [] \<and> url \<notin> set processed_urls then (Stalled, s)
          else (Returned (all_albums, processed_urls), s))"
| "meitu_listing current_url processed_urls all_albums (as # rest) s =
     (case current_url of
        None \<Rightarrow> (Returned (all_albums, processed_urls), s)
      | Some url \<Rightarrow>
          if url \<noteq> [] \<and> url \<notin> set processed_urls then
            (let processed_urls = processed_urls @ [url] in
             case meitu_parse_albums url as s of
               (Stalled, s1) \<Rightarrow> (Stalled, s1)
             | (Raised e, s1) \<Rightarrow> (Raised e, s1)
             | (Returned (albums, next_page), s1) \<Rightarrow>
                 (case next_page of
                    None \<Rightarrow> meitu_listing None processed_urls (all_albums @ albums) rest s1
                  | Some n \<Rightarrow>
                      if n \<noteq> [] \<and> n \<notin> set processed_urls
                      then meitu_listing (Some n) processed_urls (all_albums @ albums) rest s1
                      else meitu_listing None processed_urls (all_albums @ albums) rest s1))
          else (Returned (all_albums, processed_urls), s))"

definition start_url :: string where
  "start_url = ''https://xn--drdgbhrb-xx6n10qjm3s.tljkd-01.sbs/t/13/''"

text \<open>
  Then the pool over all albums: the loop over the finished tasks appends the result
  \<^verbatim>\<open>False\<close> of an album to the local list \<^verbatim>\<open>failed_albums\<close> and logs what a task raised.
\<close>

record album_env =
  album_mkdir_ok :: bool
  album_answers :: "response option list"
  album_images :: "image_env list"

fun meitu_albums ::
  "(string \<Rightarrow> bool) \<Rightarrow> (string \<times> string) list \<Rightarrow> album_env list \<Rightarrow> bool list \<Rightarrow> spider
     \<Rightarrow> bool list outcome \<times> spider"
where
  "meitu_albums pil [] envs failed_albums s = (Returned failed_albums, s)"
| "meitu_albums pil (album_info # rest) [] failed_albums s = (Stalled, s)"
| "meitu_albums pil (album_info # rest) (env # envs) failed_albums s =
     (case meitu_download_album pil album_info (album_mkdir_ok env) (album_answers env)
             (album_images env) s of
        (Stalled, s1) \<Rightarrow> (Stalled, s1)
      | (Raised e, s1) \<Rightarrow> meitu_albums pil rest envs failed_albums s1
      | (Returned result, s1) \<Rightarrow>
          meitu_albums pil rest envs (if \<not> result then failed_albums @ [result] else failed_albums) s1)"

text \<open>The state after \<^verbatim>\<open>MeituSpider.__init__\<close>, on an empty disk.\<close>

definition meitu_init :: "string \<Rightarrow> bool \<Rightarrow> spider" where
  "meitu_init save_path verify =
     \<lparr>files = Map.empty, fsops = [], requests = [],
      m_save_path = save_path, m_verify = verify, m_failed_images = [], m_failed_albums = []\<rparr>"


section \<open>SifangCrawler\<close>

text \<open>
  The library functions the crawler calls on URLs and numbers are parameters of the model:
  \<^item> \<open>urljoin\<close> is \<^verbatim>\<open>urllib.parse.urljoin\<close>;
  \<^item> \<open>page_param u\<close> is \<^verbatim>\<open>parse_qs(urlparse(u).query).get('page')\<close>, its first value;
  \<^item> \<open>int_of v\<close> is \<^verbatim>\<open>int(v)\<close>, \<open>None\<close> when it raises ValueError;
  \<^item> \<open>set_page u n\<close> is the URL the crawler builds from the parts of \<open>u\<close> with the query
    parameter \<^verbatim>\<open>page\<close> set to \<open>n\<close>;
  \<^item> \<open>url_ext u\<close> is \<^verbatim>\<open>os.path.splitext(urlparse(u).path)[1]\<close>.
\<close>

record lib =
  urljoin :: "string \<Rightarrow> string \<Rightarrow> string"
  page_param :: "string \<Rightarrow> string option"
  int_of :: "string \<Rightarrow> int option"
  set_page :: "string \<Rightarrow> int \<Rightarrow> string"
  url_ext :: "string \<Rightarrow> string"

text \<open>
  What the crawler reads of a parsed page: the text of \<^verbatim>\<open>soup.title\<close>; every \<^verbatim>\<open>a\<close> with an
  \<^verbatim>\<open>href\<close>, in document order, as its markup \<^verbatim>\<open>str(a)\<close> and its \<^verbatim>\<open>href\<close>; whether the page has
  an article content region; the \<^verbatim>\<open>img\<close> tags with a \<^verbatim>\<open>src\<close> (those of the content region when
  there is one, of the whole page otherwise), each with its attributes and the \<^verbatim>\<open>href\<close>s of
  the \<^verbatim>\<open>a\<close> elements around it; and the \<^verbatim>\<open>src\<close> attributes of the images inside the
  containers whose class marks them as recommendations.
\<close>

record anchor =
  a_markup :: string
  a_href :: string

record img =
  img_src :: string
  img_style :: "string option"
  img_width :: "string option"
  img_height :: "string option"
  img_parent_hrefs :: "string list"

record page =
  page_title :: "string option"
  anchors :: "anchor list"
  has_article :: bool
  img_tags :: "img list"
  recommend_srcs :: "string list"

datatype key = Line string | Eof

record crawler = world +
  save_dir :: string
  verify :: bool
  completed_albums :: "string set"
  failed_albums :: "(string \<times> exn) list"
  failed_images :: "(string \<times> string \<times> string \<times> string) list"
  stdin :: "key list"
  prompts :: nat

text \<open>
  \<^verbatim>\<open>retry_request(url, max_retries)\<close>. One reply per \<^verbatim>\<open>session.request\<close>: the status 443, a
  RequestException (of the request or of \<^verbatim>\<open>raise_for_status\<close>), or a page with the URL it
  was served from. \<^verbatim>\<open>input()\<close> reads the next key of the console: a line of text, or the end of the
  input, which raises EOFError; with no key left it blocks.
\<close>

datatype 'p reply = Status443 | Request_exception | Page string 'p

fun retry_request_from ::
  "nat \<Rightarrow> nat \<Rightarrow> string \<Rightarrow> 'p reply list \<Rightarrow> crawler \<Rightarrow> 'p option outcome \<times> crawler"
where
  "retry_request_from retries max_retries url [] s =
     (if retries < max_retries then (Stalled, s) else (Returned None, s))"
| "retry_request_from retries max_retries url (r # rs) s =
     (if retries < max_retries then
        (let s1 = request url s in
         case r of
           Status443 \<Rightarrow> retry_request_from (retries + 1) max_retries url rs s1
         | Page final_url p \<Rightarrow>
             if \<not> contains ''sifang.lat'' final_url then (Returned None, s1)
             else (Returned (Some p), s1)
         | Request_exception \<Rightarrow>
             if retries + 1 \<ge> max_retries then
               (let s2 = s1\<lparr>prompts := prompts s1 + 1\<rparr> in
                case stdin s2 of
                  [] \<Rightarrow> (Stalled, s2)
                | Eof # keys \<Rightarrow> (Raised EOFError, s2\<lparr>stdin := keys\<rparr>)
                | Line l # keys \<Rightarrow> retry_request_from 0 max_retries url rs (s2\<lparr>stdin := keys\<rparr>))
             else retry_request_from (retries + 1) max_retries url rs s1)
      else (Returned None, s))"

definition retry_request ::
  "string \<Rightarrow> nat \<Rightarrow> 'p reply list \<Rightarrow> crawler \<Rightarrow> 'p option outcome \<times> crawler"
where
  "retry_request url max_retries rs s = retry_request_from 0 max_retries url rs s"

text \<open>
  The next-page button, as \<^verbatim>\<open>get_next_page\<close> and \<^verbatim>\<open>get_album_images\<close> both look for it:
  the first anchor whose markup holds an arrow pattern; failing that, the first anchor with
  \<^verbatim>\<open>page=\<close> in its \<^verbatim>\<open>href\<close> whose page number is the current one plus one. The current page
  number is read outside of any \<^verbatim>\<open>try\<close>: a value that is no number raises ValueError.
\<close>

definition arrow_patterns :: "string list" where
  "arrow_patterns =
     [[CHR 0xE2, CHR 0x86, CHR 0x92], [CHR 0xE2, CHR 0x80, CHR 0xBA], [CHR 0xC2, CHR 0xBB],
      [CHR 0xE4, CHR 0xB8, CHR 0x8B, CHR 0xE4, CHR 0xB8, CHR 0x80, CHR 0xE9, CHR 0xA1, CHR 0xB5],
      ''Next'', ''next'', ''more'']"

definition is_arrow :: "anchor \<Rightarrow> bool" where
  "is_arrow a = list_ex (\<lambda>pattern. contains pattern (a_markup a)) arrow_patterns"

definition current_page_of :: "lib \<Rightarrow> string \<Rightarrow> int option" where
  "current_page_of lib page_url =
     int_of lib (case page_param lib page_url of None \<Rightarrow> ''1'' | Some v \<Rightarrow> v)"

definition page_num_of :: "lib \<Rightarrow> string \<Rightarrow> int option" where
  "page_num_of lib href =
     int_of lib (case page_param lib href of None \<Rightarrow> ''0'' | Some v \<Rightarrow> v)"

definition next_button :: "lib \<Rightarrow> string \<Rightarrow> anchor list \<Rightarrow> exn + anchor option" where
  "next_button lib page_url as =
     (case find is_arrow as of
        Some a \<Rightarrow> Inr (Some a)
      | None \<Rightarrow>
          (case current_page_of lib page_url of
             None \<Rightarrow> Inl ValueError
           | Some current_page \<Rightarrow>
               Inr (find (\<lambda>a. contains ''page='' (a_href a)
                              \<and> page_num_of lib (a_href a) = Some (current_page + 1)) as)))"

text \<open>\<^verbatim>\<open>get_next_page(page_url, soup)\<close>; \<open>None\<close> for the soup is Python's \<^verbatim>\<open>None\<close>.\<close>

definition max_page_of :: "lib \<Rightarrow> int \<Rightarrow> anchor list \<Rightarrow> int" where
  "max_page_of lib current_page as =
     foldl (\<lambda>max_page a.
              if contains ''page='' (a_href a) then
                (case page_num_of lib (a_href a) of
                   Some page_num \<Rightarrow> if page_num > max_page then page_num else max_page
                 | None \<Rightarrow> max_page)
              else max_page)
       current_page as"

definition get_next_page :: "lib \<Rightarrow> string \<Rightarrow> page option \<Rightarrow> exn + string option" where
  "get_next_page lib page_url soup =
     (case soup of
        None \<Rightarrow> Inr None
      | Some pg \<Rightarrow>
          (case next_button lib page_url (anchors pg) of
             Inl e \<Rightarrow> Inl e
           | Inr (Some a) \<Rightarrow>
               (let next_url = urljoin lib page_url (a_href a)
                in if contains ''sifang.lat'' next_url then Inr (Some next_url) else Inr None)
           | Inr None \<Rightarrow>
               (case current_page_of lib page_url of
                  None \<Rightarrow> Inl ValueError
                | Some current_page \<Rightarrow>
                    (let max_page = max_page_of lib current_page (anchors pg);
                         next_page = current_page + 1
                     in if next_page \<le> max_page
                        then Inr (Some (set_page lib page_url next_page))
                        else Inr None))))"

text \<open>
  \<^verbatim>\<open>get_album_images(album_url)\<close>, first the filters on one \<^verbatim>\<open>img\<close> tag. \<open>add_image\<close> is the
  guarded append that every accepting branch ends with.
\<close>

definition add_image :: "string \<Rightarrow> string list \<Rightarrow> string list \<Rightarrow> string list" where
  "add_image src all_image_links page_images =
     (if src \<notin> set page_images \<and> src \<notin> set all_image_links
      then page_images @ [src] else page_images)"

definition full_src :: "lib \<Rightarrow> string \<Rightarrow> string \<Rightarrow> string" where
  "full_src lib current_url src =
     (if startswith src ''//'' then ''https:'' @ src
      else if startswith src ''/'' then urljoin lib current_url src
      else src)"

definition obvious_ad_keywords :: "string list" where
  "obvious_ad_keywords =
     [''ad/'', ''ads/'', ''advertisement/'', ''banner/'', ''doubleclick.net'',
      ''googlesyndication.com'', ''adserver.'', ''affiliate.'', ''tracking.'']"

definition img_extensions :: "string list" where
  "img_extensions = [''.jpg'', ''.jpeg'', ''.png'', ''.gif'', ''.webp'', ''.bmp'']"

definition is_hidden :: "img \<Rightarrow> bool" where
  "is_hidden im =
     (case img_style im of
        None \<Rightarrow> False
      | Some v \<Rightarrow>
          (let style = lower v
           in contains ''opacity:0'' style \<or> contains ''visibility:hidden'' style
              \<or> contains ''display:none'' style))"

definition too_small :: "lib \<Rightarrow> img \<Rightarrow> bool" where
  "too_small lib im =
     (case (img_width im, img_height im) of
        (Some w, Some h) \<Rightarrow>
          (case (int_of lib w, int_of lib h) of
             (Some width, Some height) \<Rightarrow> width < 100 \<or> height < 100
           | _ \<Rightarrow> False)
      | _ \<Rightarrow> False)"

definition in_other_album :: "string \<Rightarrow> img \<Rightarrow> bool" where
  "in_other_album current_url im =
     list_ex (\<lambda>parent_href. contains ''/albums/'' parent_href \<and> parent_href \<noteq> current_url)
       (img_parent_hrefs im)"

definition has_img_extension :: "string \<Rightarrow> bool" where
  "has_img_extension src = list_ex (\<lambda>ext. endswith (lower src) ext) img_extensions"

definition strict_image ::
  "lib \<Rightarrow> string \<Rightarrow> page \<Rightarrow> string list \<Rightarrow> string list \<Rightarrow> img \<Rightarrow> string list"
where
  "strict_image lib current_url pg all_image_links page_images im =
     (if img_src im = [] then page_images
      else
        (let src = full_src lib current_url (img_src im) in
         if list_ex (\<lambda>ad_keyword. contains ad_keyword (lower src)) obvious_ad_keywords
         then page_images
         else if is_hidden im then page_images
         else if too_small lib im then page_images
         else if in_other_album current_url im then page_images
         else if src \<in> set (recommend_srcs pg) then page_images
         else if has_img_extension src then
           (if contains ''wp.com'' src \<or> contains ''imgbox.com'' src \<or> contains ''imgur.com'' src
               \<or> contains ''pixhost.to'' src
            then add_image src all_image_links page_images
            else if contains ''sifang.lat'' src then
              (if has_article pg \<and> src \<in> set (map img_src (img_tags pg))
               then add_image src all_image_links page_images
               else page_images)
            else add_image src all_image_links page_images)
         else page_images))"

definition relaxed_image ::
  "lib \<Rightarrow> string \<Rightarrow> string list \<Rightarrow> string list \<Rightarrow> img \<Rightarrow> string list"
where
  "relaxed_image lib current_url all_image_links page_images im =
     (if img_src im = [] then page_images
      else
        (let src = full_src lib current_url (img_src im) in
         if \<not> contains ''ad.'' (lower src) \<and> \<not> contains ''ads.'' (lower src)
            \<and> \<not> contains ''advertisement'' (lower src)
         then
           (if \<not> in_other_album current_url im then
              (if has_img_extension src then add_image src all_image_links page_images
               else page_images)
            else page_images)
         else page_images))"

definition images_of_page :: "lib \<Rightarrow> string \<Rightarrow> string list \<Rightarrow> page \<Rightarrow> string list" where
  "images_of_page lib current_url all_image_links pg =
     (let page_images = foldl (strict_image lib current_url pg all_image_links) [] (img_tags pg)
      in if page_images = [] \<and> img_tags pg \<noteq> []
         then foldl (relaxed_image lib current_url all_image_links) page_images (img_tags pg)
         else page_images)"

text \<open>The album name, from the page title or from the last segment of the album URL.\<close>

definition album_name_of :: "string \<Rightarrow> page \<Rightarrow> string" where
  "album_name_of album_url pg =
     (let album_name =
            (case page_title pg of
               Some t \<Rightarrow> strip t
             | None \<Rightarrow> ''album_'' @ last (str_split ''/'' album_url));
          album_name =
            (if contains '' | '' album_name then hd (str_split '' | '' album_name)
             else album_name)
      in take 50 (strip (filter (\<lambda>c. c \<notin> set [CHR ''<'', CHR ''>'', CHR '':'', CHR ''/'',
                                                  CHR 0x5C, CHR ''|'', CHR ''?'', CHR ''*''])
                           album_name)))"

text \<open>
  The loop over the pages of an album. Each requested page has its own replies. The next URL
  is joined to \<^verbatim>\<open>album_url\<close>: the source has reset \<^verbatim>\<open>current_url\<close> to \<^verbatim>\<open>None\<close> by then.
\<close>

fun album_pages ::
  "lib \<Rightarrow> string \<Rightarrow> string option \<Rightarrow> string option \<Rightarrow> string list \<Rightarrow> page reply list list
     \<Rightarrow> crawler \<Rightarrow> (string option \<times> string list) outcome \<times> crawler"
where
  "album_pages lib album_url current_url album_name all_image_links [] s =
     (case current_url of
        None \<Rightarrow> (Returned (album_name, all_image_links), s)
      | Some url \<Rightarrow>
          if url = [] then (Returned (album_name, all_image_links), s) else (Stalled, s))"
| "album_pages lib album_url current_url album_name all_image_links (rs # rest) s =
     (case current_url of
        None \<Rightarrow> (Returned (album_name, all_image_links), s)
      | Some url \<Rightarrow>
          if url = [] then (Returned (album_name, all_image_links), s)
          else
            (case retry_request url 5 rs s of
               (Stalled, s1) \<Rightarrow> (Stalled, s1)
             | (Raised e, s1) \<Rightarrow> (Raised e, s1)
             | (Returned None, s1) \<Rightarrow> (Returned (album_name, all_image_links), s1)
             | (Returned (Some pg), s1) \<Rightarrow>
                 (let album_name =
                        (if album_name = None \<or> album_name = Some []
                         then Some (album_name_of album_url pg) else album_name)
                  in case next_button lib url (anchors pg) of
                       Inl e \<Rightarrow> (Raised e, s1)
                     | Inr next_page_button \<Rightarrow>
                         (let all_image_links =
                                all_image_links @ images_of_page lib url all_image_links pg;
                              next =
                                (case next_page_button of
                                   None \<Rightarrow> None
                                 | Some a \<Rightarrow>
                                     (let next_url = urljoin lib album_url (a_href a)
                                      in if contains ''sifang.lat'' next_url
                                            \<and> contains ''/albums/'' next_url
                                         then Some next_url else None))
                          in album_pages lib album_url next album_name all_image_links rest s1))))"

definition get_album_images ::
  "lib \<Rightarrow> string \<Rightarrow> page reply list list \<Rightarrow> crawler
     \<Rightarrow> (string option \<times> string list) outcome \<times> crawler"
where
  "get_album_images lib album_url replies s =
     album_pages lib album_url (Some album_url) None [] replies s"

text \<open>
  \<^verbatim>\<open>download_image(image_url, save_path)\<close>. \<open>pil\<close> is the verdict of PIL's
  \<^verbatim>\<open>verify()\<close> and \<^verbatim>\<open>load()\<close> on the bytes of a file. One fetch per \<^verbatim>\<open>session.get\<close>: the
  request (or \<^verbatim>\<open>raise_for_status\<close>) raises, or a response arrives with its
  \<^verbatim>\<open>Content-Type\<close> and what writing its body to the temporary file does: \<^verbatim>\<open>open\<close> fails, the
  stream or the write breaks after some bytes, or all bytes are written; in the last case
  the flag says whether the file-system call that follows (\<^verbatim>\<open>os.unlink\<close> or
  \<^verbatim>\<open>os.replace\<close>) succeeds. Every exception inside the \<^verbatim>\<open>try\<close> leads to the next round.
\<close>

datatype body = Open_fails | Stream_breaks string | Received string bool

datatype fetch = Fetch_raises | Fetched string body

definition is_image_corrupted :: "(string \<Rightarrow> bool) \<Rightarrow> crawler \<Rightarrow> string \<Rightarrow> bool" where
  "is_image_corrupted pil s img_path =
     (case files s img_path of None \<Rightarrow> True | Some b \<Rightarrow> \<not> pil b)"

fun download_rounds ::
  "(string \<Rightarrow> bool) \<Rightarrow> string \<Rightarrow> string \<Rightarrow> nat \<Rightarrow> fetch list \<Rightarrow> crawler \<Rightarrow> bool outcome \<times> crawler"
where
  "download_rounds pil image_url dest 0 fs s = (Returned False, s)"
| "download_rounds pil image_url dest (Suc n) [] s = (Stalled, s)"
| "download_rounds pil image_url dest (Suc n) (f # fs) s =
     (let s1 = request image_url s in
      case f of
        Fetch_raises \<Rightarrow> download_rounds pil image_url dest n fs s1
      | Fetched ctype b \<Rightarrow>
          if \<not> startswith ctype ''image/'' then (Returned False, s1)
          else
            (let temp_path = dest @ ''.tmp'' in
             case b of
               Open_fails \<Rightarrow> download_rounds pil image_url dest n fs s1
             | Stream_breaks part \<Rightarrow>
                 download_rounds pil image_url dest n fs (write_file temp_path part s1)
             | Received bytes fs_ok \<Rightarrow>
                 (let s2 = write_file temp_path bytes s1 in
                  if is_image_corrupted pil s2 temp_path then
                    (if fs_ok then download_rounds pil image_url dest n fs (remove_file temp_path s2)
                     else download_rounds pil image_url dest n fs s2)
                  else if fs_ok then (Returned True, move_file temp_path dest s2)
                  else download_rounds pil image_url dest n fs s2)))"

definition download_image ::
  "(string \<Rightarrow> bool) \<Rightarrow> string \<Rightarrow> string \<Rightarrow> fetch list \<Rightarrow> crawler \<Rightarrow> bool outcome \<times> crawler"
where
  "download_image pil image_url dest fs s =
     (if path_exists s dest then
        (if \<not> verify s then (Returned True, s)
         else if \<not> is_image_corrupted pil s dest then (Returned True, s)
         else download_rounds pil image_url dest 5 fs s)
      else download_rounds pil image_url dest 5 fs s)"

text \<open>
  \<^verbatim>\<open>save_completed_album(album_url)\<close>; \<open>write_ok\<close> says whether appending to
  \<^verbatim>\<open>completed_albums.txt\<close> succeeds (a failure is logged and dropped).
\<close>

definition completed_albums_file :: "crawler \<Rightarrow> string" where
  "completed_albums_file s = path_join (save_dir s) ''completed_albums.txt''"

definition save_completed_album :: "string \<Rightarrow> bool \<Rightarrow> crawler \<Rightarrow> crawler" where
  "save_completed_album album_url write_ok s =
     (if album_url \<notin> completed_albums s then
        (let s1 = s\<lparr>completed_albums := insert album_url (completed_albums s)\<rparr>
         in if write_ok
            then append_file (completed_albums_file s1) (album_url @ [CHR 0x0A]) s1
            else s1)
      else s)"

text \<open>
  \<^verbatim>\<open>download_album(album_item, ..)\<close>. The tasks of the image pool are run in the order of
  their submission, each with its own fetches; the result loop puts every image whose
  download returned \<^verbatim>\<open>False\<close> on \<^verbatim>\<open>failed_images\<close>. Whatever the body raises is caught: the
  album goes on \<^verbatim>\<open>failed_albums\<close> and the result is \<^verbatim>\<open>False\<close>. A missing album name (the
  first page was not fetched) makes \<^verbatim>\<open>os.path.join\<close> raise TypeError.
\<close>

fun download_images ::
  "lib \<Rightarrow> (string \<Rightarrow> bool) \<Rightarrow> string \<Rightarrow> string \<Rightarrow> string \<Rightarrow> nat \<Rightarrow> string list \<Rightarrow> fetch list list
     \<Rightarrow> crawler \<Rightarrow> unit outcome \<times> crawler"
where
  "download_images lib pil album_url album_name album_dir i [] fss s = (Returned (), s)"
| "download_images lib pil album_url album_name album_dir i (img_url # rest) fss s =
     (let img_name = ''image_'' @ zfill3 i @ url_ext lib img_url;
          dest = path_join album_dir img_name
      in case download_image pil img_url dest (case fss of [] \<Rightarrow> [] | fs # _ \<Rightarrow> fs) s of
           (Stalled, s1) \<Rightarrow> (Stalled, s1)
         | (Raised e, s1) \<Rightarrow> (Raised e, s1)
         | (Returned result, s1) \<Rightarrow>
             download_images lib pil album_url album_name album_dir (i + 1) rest (tl fss)
               (if result then s1
                else s1\<lparr>failed_images :=
                          failed_images s1 @ [(img_url, dest, album_url, album_name)]\<rparr>))"

definition failed_album :: "string \<Rightarrow> exn \<Rightarrow> crawler \<Rightarrow> crawler" where
  "failed_album album_url e s = s\<lparr>failed_albums := failed_albums s @ [(album_url, e)]\<rparr>"

record album_input =
  page_replies :: "page reply list list"
  makedirs_succeeds :: bool
  image_fetches :: "fetch list list"
  record_write_ok :: bool

definition download_album ::
  "lib \<Rightarrow> (string \<Rightarrow> bool) \<Rightarrow> string \<Rightarrow> album_input \<Rightarrow> crawler \<Rightarrow> bool outcome \<times> crawler"
where
  "download_album lib pil album_url inp s =
     (case get_album_images lib album_url (page_replies inp) s of
        (Stalled, s1) \<Rightarrow> (Stalled, s1)
      | (Raised e, s1) \<Rightarrow> (Returned False, failed_album album_url e s1)
      | (Returned (None, image_links), s1) \<Rightarrow>
          (Returned False, failed_album album_url TypeError s1)
      | (Returned (Some album_name, image_links), s1) \<Rightarrow>
          (let album_dir = path_join (save_dir s1) album_name in
           if \<not> makedirs_succeeds inp then (Returned False, failed_album album_url OSError s1)
           else
             (case download_images lib pil album_url album_name album_dir 1 image_links
                     (image_fetches inp) s1 of
                (Stalled, s2) \<Rightarrow> (Stalled, s2)
              | (Raised e, s2) \<Rightarrow> (Returned False, failed_album album_url e s2)
              | (Returned u, s2) \<Rightarrow>
                  (Returned True, save_completed_album album_url (record_write_ok inp) s2))))"

text \<open>
  The crawl thread of \<^verbatim>\<open>download()\<close>: \<^verbatim>\<open>crawl_albums\<close>. It walks the listing from the start
  URL and puts on the queue every album of a page that is not in \<^verbatim>\<open>completed_albums\<close>. The
  result is the queue, the page URLs processed, in order, and how the thread ended: it
  finished (and set \<^verbatim>\<open>crawl_complete\<close>), it died of an exception, or it has not returned.
\<close>

definition get_album_list :: "lib \<Rightarrow> string \<Rightarrow> page \<Rightarrow> string list" where
  "get_album_list lib page_url pg =
     foldl (\<lambda>album_links a.
              if contains ''/albums/'' (a_href a) then
                (let full_url = urljoin lib page_url (a_href a)
                 in if full_url \<notin> set album_links then album_links @ [full_url]
                    else album_links)
              else album_links)
       [] (anchors pg)"

datatype ending = Finished | Died exn | Waiting

fun crawl_albums ::
  "lib \<Rightarrow> string option \<Rightarrow> string list \<Rightarrow> string list \<Rightarrow> page reply list list \<Rightarrow> crawler
     \<Rightarrow> (string list \<times> string list \<times> ending) \<times> crawler"
where
  "crawl_albums lib current_url queue visited [] s =
     (case current_url of
        None \<Rightarrow> ((queue, visited, Finished), s)
      | Some url \<Rightarrow>
          if url = [] then ((queue, visited, Finished), s) else ((queue, visited, Waiting), s))"
| "crawl_albums lib current_url queue visited (rs # rest) s =
     (case current_url of
        None \<Rightarrow> ((queue, visited, Finished), s)
      | Some url \<Rightarrow>
          if url = [] then ((queue, visited, Finished), s)
          else
            (case retry_request url 5 rs s of
               (Stalled, s1) \<Rightarrow> ((queue, visited @ [url], Waiting), s1)
             | (Raised e, s1) \<Rightarrow> ((queue, visited @ [url], Died e), s1)
             | (Returned soup, s1) \<Rightarrow>
                 (let queue =
                        (case soup of
                           None \<Rightarrow> queue
                         | Some pg \<Rightarrow>
                             queue @ filter (\<lambda>album_url. album_url \<notin> completed_albums s1)
                                       (get_album_list lib url pg))
                  in case get_next_page lib url soup of
                       Inl e \<Rightarrow> ((queue, visited @ [url], Died e), s1)
                     | Inr next \<Rightarrow> crawl_albums lib next queue (visited @ [url]) rest s1)))"

text \<open>The consumer side: every queued album goes through \<^verbatim>\<open>download_album\<close>.\<close>

fun download_queue ::
  "lib \<Rightarrow> (string \<Rightarrow> bool) \<Rightarrow> string list \<Rightarrow> album_input list \<Rightarrow> crawler \<Rightarrow> unit outcome \<times> crawler"
where
  "download_queue lib pil [] inps s = (Returned (), s)"
| "download_queue lib pil (album_url # rest) [] s = (Stalled, s)"
| "download_queue lib pil (album_url # rest) (inp # inps) s =
     (case download_album lib pil album_url inp s of
        (Stalled, s1) \<Rightarrow> (Stalled, s1)
      | (_, s1) \<Rightarrow> download_queue lib pil rest inps s1)"

text \<open>
  The end of \<^verbatim>\<open>download()\<close>. The summary line formats the name \<^verbatim>\<open>total_albums\<close>. A name is
  looked up among the names bound in the function, then among those of the module, then
  among the builtins; the lists below are the names \<^verbatim>\<open>download\<close> binds (its parameter, its
  imports, its assignments, its loop and handler variables, its nested function), the
  names the module binds, and the builtins the function uses.
\<close>

definition download_locals :: "string list" where
  "download_locals =
     [''self'', ''queue'', ''album_queue'', ''threading'', ''crawl_complete'', ''crawl_albums'',
      ''crawl_thread'', ''executor'', ''futures'', ''album_item'', ''future'', ''done'',
      ''result'', ''e'', ''retry_input'', ''i'', ''failed_album'', ''failed_image'',
      ''success_count'', ''img_index'', ''progress'', ''failed_log_file'', ''f'', ''album'',
      ''img'']"

definition module_globals :: "string list" where
  "module_globals =
     [''os'', ''sys'', ''time'', ''random'', ''requests'', ''concurrent'', ''threading'',
      ''BeautifulSoup'', ''urljoin'', ''urlparse'', ''parse_qs'', ''urlencode'', ''Image'', ''io'',
      ''json'', ''argparse'', ''logging'', ''logger'', ''DEFAULT_SAVE_PATH'', ''SifangCrawler'',
      ''main'']"

definition builtins :: "string list" where
  "builtins = [''print'', ''input'', ''len'', ''enumerate'', ''int'', ''open'', ''Exception'']"

definition lookup_name :: "string \<Rightarrow> exn + unit" where
  "lookup_name name =
     (if name \<in> set download_locals \<or> name \<in> set module_globals \<or> name \<in> set builtins
      then Inr () else Inl NameError)"

text \<open>
  What follows the summary line: the failure statistics, then, when a failure was recorded,
  the prompt; on the answer \<^verbatim>\<open>y\<close> the failed albums and the failed images are tried again,
  on any other answer \<^verbatim>\<open>failed_items.log\<close> is written.
\<close>

record retry_input =
  retry_albums :: "album_input list"
  retry_images :: "fetch list list"

fun retry_failed_images ::
  "(string \<Rightarrow> bool) \<Rightarrow> (string \<times> string \<times> string \<times> string) list \<Rightarrow> fetch list list \<Rightarrow> crawler
     \<Rightarrow> unit outcome \<times> crawler"
where
  "retry_failed_images pil [] fss s = (Returned (), s)"
| "retry_failed_images pil ((img_url, dest, album_url, album_name) # rest) fss s =
     (case download_image pil img_url dest (case fss of [] \<Rightarrow> [] | fs # _ \<Rightarrow> fs) s of
        (Stalled, s1) \<Rightarrow> (Stalled, s1)
      | (Raised e, s1) \<Rightarrow> (Raised e, s1)
      | (Returned result, s1) \<Rightarrow> retry_failed_images pil rest (tl fss) s1)"

text \<open>
  The contents of \<^verbatim>\<open>failed_items.log\<close>. The source keeps \<^verbatim>\<open>str(e)\<close> of a failed album; the
  model keeps the exception and writes its class name.
\<close>

fun exn_name :: "exn \<Rightarrow> string" where
  "exn_name AttributeError = ''AttributeError''"
| "exn_name TypeError = ''TypeError''"
| "exn_name ValueError = ''ValueError''"
| "exn_name NameError = ''NameError''"
| "exn_name OSError = ''OSError''"
| "exn_name EOFError = ''EOFError''"
| "exn_name RequestException = ''RequestException''"
| "exn_name ConnectionError = ''ConnectionError''"

definition failed_items_log :: "crawler \<Rightarrow> string" where
  "failed_items_log s =
     ''=== '' @ [CHR 0xE5, CHR 0xA4, CHR 0xB1, CHR 0xE8, CHR 0xB4, CHR 0xA5, CHR 0xE7, CHR 0x9B,
                 CHR 0xB8, CHR 0xE5, CHR 0x86, CHR 0x8C] @ '' ==='' @ [CHR 0x0A]
     @ concat (map (\<lambda>(album_url, e).
                      ''URL: '' @ album_url @ [CHR 0x0A]
                      @ ''Error: '' @ exn_name e @ [CHR 0x0A, CHR 0x0A])
                 (failed_albums s))
     @ ''=== '' @ [CHR 0xE5, CHR 0xA4, CHR 0xB1, CHR 0xE8, CHR 0xB4, CHR 0xA5, CHR 0xE5, CHR 0x9B,
                   CHR 0xBE, CHR 0xE7, CHR 0x89, CHR 0x87] @ '' ==='' @ [CHR 0x0A]
     @ concat (map (\<lambda>(img_url, dest, album_url, album_name).
                      ''URL: '' @ img_url @ [CHR 0x0A]
                      @ ''Save Path: '' @ dest @ [CHR 0x0A]
                      @ ''Album URL: '' @ album_url @ [CHR 0x0A]
                      @ ''Album Name: '' @ album_name @ [CHR 0x0A, CHR 0x0A])
                 (failed_images s))"

definition after_summary ::
  "lib \<Rightarrow> (string \<Rightarrow> bool) \<Rightarrow> retry_input \<Rightarrow> crawler \<Rightarrow> unit outcome \<times> crawler"
where
  "after_summary lib pil inp s =
     (if failed_albums s \<noteq> [] \<or> failed_images s \<noteq> [] then
        (let s1 = s\<lparr>prompts := prompts s + 1\<rparr> in
         case stdin s1 of
           [] \<Rightarrow> (Stalled, s1)
         | Eof # keys \<Rightarrow> (Raised EOFError, s1\<lparr>stdin := keys\<rparr>)
         | Line l # keys \<Rightarrow>
             (let s2 = s1\<lparr>stdin := keys\<rparr> in
              if lower (strip l) = ''y'' then
                (case download_queue lib pil (map fst (failed_albums s2)) (retry_albums inp) s2 of
                   (Returned u, s3) \<Rightarrow>
                     retry_failed_images pil (failed_images s3) (retry_images inp) s3
                 | other \<Rightarrow> other)
              else
                (Returned (),
                 write_file (path_join (save_dir s2) ''failed_items.log'')
                   (failed_items_log s2) s2)))
      else (Returned (), s))"

definition final_report ::
  "(crawler \<Rightarrow> unit outcome \<times> crawler) \<Rightarrow> crawler \<Rightarrow> unit outcome \<times> crawler"
where
  "final_report rest s =
     (case lookup_name ''total_albums'' of
        Inl e \<Rightarrow> (Raised e, s)
      | Inr u \<Rightarrow> rest s)"

text \<open>
  \<^verbatim>\<open>download()\<close>. The crawl thread and the consumer loop run at the same time in the
  source; here the crawl runs first. The consumer loop ends only once the crawl thread has
  set \<^verbatim>\<open>crawl_complete\<close>: a crawl thread that died or has not returned leaves
  \<^verbatim>\<open>download\<close> waiting.
\<close>

record run_input =
  listing_replies :: "page reply list list"
  album_inputs :: "album_input list"
  retries_input :: retry_input

definition download ::
  "lib \<Rightarrow> (string \<Rightarrow> bool) \<Rightarrow> run_input \<Rightarrow> crawler \<Rightarrow> unit outcome \<times> crawler"
where
  "download lib pil inp s =
     (case crawl_albums lib (Some ''https://sifang.lat/'') [] [] (listing_replies inp) s of
        ((queue, visited, ending), s1) \<Rightarrow>
          (case download_queue lib pil queue (album_inputs inp) s1 of
             (Returned u, s2) \<Rightarrow>
               (if ending = Finished
                then final_report (after_summary lib pil (retries_input inp)) s2
                else (Stalled, s2))
           | other \<Rightarrow> other))"

section \<open>The ku1372 script\<close>

text \<open>
  \<^verbatim>\<open>download_album_wrapper(album, tag_dir, verify, tag_name)\<close> downloads the archive of an
  album to \<^verbatim>\<open>save_path\<close>. Each round first asks \<^verbatim>\<open>get_download_link\<close> for the link (\<open>None\<close>
  when the page or the link is missing), then requests the archive. What the transfer does:
  the request (or \<^verbatim>\<open>raise_for_status\<close>) raises; \<^verbatim>\<open>int\<close> of the \<^verbatim>\<open>content-length\<close> header
  raises; \<^verbatim>\<open>open(save_path)\<close> raises; the stream or the write breaks after some bytes; or all
  bytes are written. The \<^verbatim>\<open>Content-Type\<close> of the response is part of the reply, and the
  code never reads it.
\<close>

datatype transfer =
    Request_raises | Length_raises | Open_raises | Stream_raises string | Complete string

record ku_reply =
  download_link :: "string option"
  reply_content_type :: string
  content_length :: int
  transfer :: transfer

definition remove_if_exists :: "string \<Rightarrow> world \<Rightarrow> world" where
  "remove_if_exists p w = (if path_exists w p then remove_file p w else w)"

definition html_error_page :: "string \<Rightarrow> bool" where
  "html_error_page bytes =
     (let content = take 512 bytes
      in contains ''<!DOCTYPE html>'' content \<or> contains ''<html>'' content
         \<or> contains ''<head>'' content)"

fun wrapper_rounds ::
  "nat \<Rightarrow> string \<Rightarrow> string \<Rightarrow> ku_reply list \<Rightarrow> world \<Rightarrow> bool outcome \<times> world"
where
  "wrapper_rounds retry_count album_url save_path [] w =
     (if retry_count < 5 then (Stalled, w) else (Returned False, w))"
| "wrapper_rounds retry_count album_url save_path (r # rs) w =
     (if retry_count < 5 then
        (let w1 = request album_url w in
         case download_link r of
           None \<Rightarrow> (Returned False, w1)
         | Some download_url \<Rightarrow>
             if download_url = [] then (Returned False, w1)
             else
               (let w2 = request download_url w1 in
                case transfer r of
                  Request_raises \<Rightarrow>
                    wrapper_rounds (retry_count + 1) album_url save_path rs
                      (remove_if_exists save_path w2)
                | Length_raises \<Rightarrow>
                    wrapper_rounds (retry_count + 1) album_url save_path rs
                      (remove_if_exists save_path w2)
                | Open_raises \<Rightarrow>
                    wrapper_rounds (retry_count + 1) album_url save_path rs
                      (remove_if_exists save_path w2)
                | Stream_raises part \<Rightarrow>
                    wrapper_rounds (retry_count + 1) album_url save_path rs
                      (remove_if_exists save_path (write_file save_path part w2))
                | Complete bytes \<Rightarrow>
                    (let w3 = write_file save_path bytes w2;
                         total_size = content_length r;
                         final_size = int (length bytes)
                     in if html_error_page bytes then
                          wrapper_rounds (retry_count + 1) album_url save_path rs
                            (remove_file save_path w3)
                        else if final_size < 1024 then
                          wrapper_rounds (retry_count + 1) album_url save_path rs
                            (remove_file save_path w3)
                        else if total_size > 0 \<and> \<bar>final_size - total_size\<bar> > 1024 then
                          wrapper_rounds (retry_count + 1) album_url save_path rs
                            (remove_file save_path w3)
                        else (Returned True, w3))))
      else (Returned False, w))"

definition download_album_wrapper ::
  "string \<Rightarrow> string \<Rightarrow> bool \<Rightarrow> ku_reply list \<Rightarrow> world \<Rightarrow> bool outcome \<times> world"
where
  "download_album_wrapper album_url save_path verify_flag rs w =
     (if path_exists w save_path then
        (if verify_flag then
           (case files w save_path of
              Some bytes \<Rightarrow>
                if length bytes > 1024 then (Returned True, w)
                else wrapper_rounds 0 album_url save_path rs (remove_file save_path w)
            | None \<Rightarrow> wrapper_rounds 0 album_url save_path rs w)
         else (Returned True, w))
      else wrapper_rounds 0 album_url save_path rs w)"

section \<open>Initial states and example inputs\<close>

text \<open>
  The state after \<^verbatim>\<open>SifangCrawler.__init__\<close> on an empty disk, with the console input
  that is still to come.
\<close>

definition sifang_init :: "string \<Rightarrow> bool \<Rightarrow> key list \<Rightarrow> crawler" where
  "sifang_init save_path verify_flag keys =
     \<lparr>files = Map.empty, fsops = [], requests = [],
      save_dir = save_path, verify = verify_flag, completed_albums = {},
      failed_albums = [], failed_images = [], stdin = keys, prompts = 0\<rparr>"

text \<open>
  The library on the URLs of the examples below: every link is absolute, no URL has a
  query string, and every image URL ends in \<^verbatim>\<open>.jpg\<close>.
\<close>

definition plain_lib :: lib where
  "plain_lib =
     \<lparr>urljoin = (\<lambda>base href. href),
      page_param = (\<lambda>u. None),
      int_of = (\<lambda>v. if v = ''1'' then Some 1 else if v = ''0'' then Some 0 else None),
      set_page = (\<lambda>u n. u),
      url_ext = (\<lambda>u. ''.jpg'')\<rparr>"

definition empty_page :: page where
  "empty_page =
     \<lparr>page_title = None, anchors = [], has_article = False, img_tags = [],
      recommend_srcs = []\<rparr>"

section \<open>Properties\<close>

lemma contains_Cons:
  "contains p (c # s) = (take (length p) (c # s) = p \<or> contains p s)"
  by (simp add: startswith_def)

subsection \<open>MeituSpider: a failed album page\<close>

lemma get_response_all_fail:
  "meitu_get_response url 5 (None # None # None # None # None # rest) s
     = (Returned None, request url (request url (request url (request url (request url s)))))"
  by (simp add: meitu_get_response_def)

lemma five_failures:
  assumes "take 5 as = replicate 5 None"
  shows "\<exists>rest. as = None # None # None # None # None # rest"
proof -
  have "as = take 5 as @ drop 5 as" by simp
  then have "as = replicate 5 None @ drop 5 as" using assms by simp
  then have "as = None # None # None # None # None # drop 5 as"
    by (simp add: numeral_eq_Suc)
  then show ?thesis by blast
qed

lemma failed_albums_request [simp]: "m_failed_albums (request url s) = m_failed_albums s"
  by (simp add: request_def)

text \<open>
  C10. When the five requests for an album page all fail, \<^verbatim>\<open>_get_response\<close> returns
  \<open>None\<close> and \<^verbatim>\<open>_parse_album_images\<close> raises AttributeError where an empty list would have
  put the album on the failed list. \<^verbatim>\<open>_download_album\<close> lets the exception through before
  it appends to \<^verbatim>\<open>self.failed_albums\<close>, and the result loop of \<^verbatim>\<open>run\<close> only logs it: the
  album is on neither failed list.
\<close>

theorem parse_album_images_none_guard:
  assumes "take 5 as = replicate 5 None"
  shows "fst (meitu_parse_album_images album_url as s) = Raised AttributeError
     \<and> fst (meitu_download_album pil (album_title, album_url) True as envs s) = Raised AttributeError
     \<and> m_failed_albums (snd (meitu_download_album pil (album_title, album_url) True as envs s))
         = m_failed_albums s
     \<and> fst (meitu_albums pil [(album_title, album_url)]
              [\<lparr>album_mkdir_ok = True, album_answers = as, album_images = envs\<rparr>] failed s)
         = Returned failed
     \<and> m_failed_albums (snd (meitu_albums pil [(album_title, album_url)]
              [\<lparr>album_mkdir_ok = True, album_answers = as, album_images = envs\<rparr>] failed s))
         = m_failed_albums s"
proof -
  obtain rest where as: "as = None # None # None # None # None # rest"
    using five_failures [OF assms] by blast
  have p: "meitu_parse_album_images album_url as s
      = (Raised AttributeError, request album_url (request album_url (request album_url
           (request album_url (request album_url s)))))"
    unfolding meitu_parse_album_images_def as get_response_all_fail by simp
  have d: "meitu_download_album pil (album_title, album_url) True as envs s
      = (Raised AttributeError, request album_url (request album_url (request album_url
           (request album_url (request album_url s)))))"
    unfolding meitu_download_album_def by (simp add: p)
  show ?thesis by (simp add: p d)
qed

theorem parse_album_images_none_guard_witness:
  "take 5 [None, None, None, None, None] = replicate 5 (None :: response option)
   \<and> fst (meitu_parse_album_images ''https://site/a/1'' [None, None, None, None, None]
            (meitu_init ''out'' True)) = Raised AttributeError
   \<and> fst (meitu_download_album ((=) ''ok'') (''Album'', ''https://site/a/1'') True
            [None, None, None, None, None] [] (meitu_init ''out'' True)) = Raised AttributeError
   \<and> m_failed_albums (snd (meitu_download_album ((=) ''ok'') (''Album'', ''https://site/a/1'') True
            [None, None, None, None, None] [] (meitu_init ''out'' True))) = []
   \<and> fst (meitu_albums ((=) ''ok'') [(''Album'', ''https://site/a/1'')]
            [\<lparr>album_mkdir_ok = True, album_answers = [None, None, None, None, None],
              album_images = []\<rparr>] [] (meitu_init ''out'' True)) = Returned []
   \<and> m_failed_albums (snd (meitu_albums ((=) ''ok'') [(''Album'', ''https://site/a/1'')]
            [\<lparr>album_mkdir_ok = True, album_answers = [None, None, None, None, None],
              album_images = []\<rparr>] [] (meitu_init ''out'' True))) = []"
proof -
  have h: "take 5 [None, None, None, None, None] = replicate 5 (None :: response option)"
    by (simp add: numeral_eq_Suc)
  show ?thesis
    using h parse_album_images_none_guard [OF h, of "''https://site/a/1''" "meitu_init ''out'' True"
      "(=) ''ok''" "''Album''" "[]" "[]"]
    by (simp add: meitu_init_def)
qed

subsection \<open>SifangCrawler: the end of a run\<close>

lemma lookup_total_albums: "lookup_name ''total_albums'' = Inl NameError"
  by (simp add: lookup_name_def download_locals_def module_globals_def builtins_def)

text \<open>
  C9. \<^verbatim>\<open>download()\<close> never returns. The summary line reads \<^verbatim>\<open>total_albums\<close>, a name
  that neither the function, nor the module, nor the builtins bind: whatever follows the
  line (the statistics, the retry prompt, the writing of \<^verbatim>\<open>failed_items.log\<close>) is not run,
  and a run whose crawl thread finished and whose album tasks all completed ends in
  NameError, in the state the album tasks left.
\<close>

theorem download_raises_name_error:
  "final_report rest s = (Raised NameError, s)
   \<and> download lib pil inp s =
       (case crawl_albums lib (Some ''https://sifang.lat/'') [] [] (listing_replies inp) s of
          ((queue, visited, ending), s1) \<Rightarrow>
            (case download_queue lib pil queue (album_inputs inp) s1 of
               (Returned u, s2) \<Rightarrow>
                 if ending = Finished then (Raised NameError, s2) else (Stalled, s2)
             | other \<Rightarrow> other))
   \<and> fst (download lib pil inp s) \<noteq> Returned ()"
proof -
  have f: "\<And>rest s. final_report rest s = (Raised NameError, s)"
    by (simp add: final_report_def lookup_total_albums)
  show ?thesis
    by (auto simp: f download_def split: prod.splits outcome.splits)
qed

theorem download_raises_name_error_witness:
  "download plain_lib ((=) ''ok'')
      \<lparr>listing_replies = [[Page ''https://sifang.lat/'' empty_page]], album_inputs = [],
       retries_input = \<lparr>retry_albums = [], retry_images = []\<rparr>\<rparr>
      (sifang_init ''out'' False [Line ''n''])
    = (Raised NameError, request ''https://sifang.lat/'' (sifang_init ''out'' False [Line ''n'']))
   \<and> prompts (snd (download plain_lib ((=) ''ok'')
      \<lparr>listing_replies = [[Page ''https://sifang.lat/'' empty_page]], album_inputs = [],
       retries_input = \<lparr>retry_albums = [], retry_images = []\<rparr>\<rparr>
      (sifang_init ''out'' False [Line ''n'']))) = 0"
  using download_raises_name_error
    [of "after_summary plain_lib ((=) ''ok'') \<lparr>retry_albums = [], retry_images = []\<rparr>"
      "sifang_init ''out'' False [Line ''n'']" plain_lib "(=) ''ok''"
      "\<lparr>listing_replies = [[Page ''https://sifang.lat/'' empty_page]], album_inputs = [],
        retries_input = \<lparr>retry_albums = [], retry_images = []\<rparr>\<rparr>"]
  by (simp add: retry_request_def get_next_page_def next_button_def empty_page_def plain_lib_def
      current_page_of_def max_page_of_def get_album_list_def Let_def sifang_init_def request_def
      contains_Cons)

subsection \<open>SifangCrawler: the rounds of an image download\<close>

lemma world_ops_simps [simp]:
  "files (request u w) = files w" "fsops (request u w) = fsops w"
  "requests (request u w) = requests w @ [u]"
  "files (write_file p b w) = (files w)(p \<mapsto> b)" "fsops (write_file p b w) = fsops w @ [Wrote p]"
  "requests (write_file p b w) = requests w"
  "files (remove_file p w) = (files w)(p := None)" "fsops (remove_file p w) = fsops w @ [Removed p]"
  "requests (remove_file p w) = requests w"
  "files (move_file p q w) = (files w)(q := files w p, p := None)"
  "fsops (move_file p q w) = fsops w @ [Moved p q]"
  "requests (move_file p q w) = requests w"
  by (simp_all add: request_def write_file_def remove_file_def move_file_def)

lemma corrupted_after_write [simp]:
  "is_image_corrupted pil (write_file p b s) p = (\<not> pil b)"
  by (simp add: is_image_corrupted_def)

lemma download_rounds_invariant:
  assumes "I s"
    and "\<And>t. I t \<Longrightarrow> I (request u t)"
    and "\<And>t b. I t \<Longrightarrow> I (write_file (dest @ ''.tmp'') b t)"
    and "\<And>t. I t \<Longrightarrow> I (remove_file (dest @ ''.tmp'') t)"
  shows "case download_rounds pil u dest n fs s of
           (Returned True, s') \<Rightarrow>
             (\<exists>t b. I t \<and> pil b \<and> files t (dest @ ''.tmp'') = Some b
                    \<and> s' = move_file (dest @ ''.tmp'') dest t)
         | (Returned False, s') \<Rightarrow> I s'
         | (Raised e, s') \<Rightarrow> False
         | (Stalled, s') \<Rightarrow> I s'"
  using assms(1)
proof (induction fs arbitrary: n s)
  case Nil
  then show ?case by (cases n) simp_all
next
  case (Cons f fs)
  note step = assms(2-4)
  show ?case
  proof (cases n)
    case 0
    with Cons.prems show ?thesis by simp
  next
    case (Suc k)
    have I1: "I (request u s)" using Cons.prems step(1) by simp
    show ?thesis
    proof (cases f)
      case Fetch_raises
      with Cons.IH [OF I1, of k] Suc show ?thesis by simp
    next
      case (Fetched ctype b)
      show ?thesis
      proof (cases "startswith ctype ''image/''")
        case False
        with Fetched Suc I1 show ?thesis by simp
      next
        case True
        show ?thesis
        proof (cases b)
          case Open_fails
          with Cons.IH [OF I1, of k] True Fetched Suc show ?thesis by simp
        next
          case (Stream_breaks part)
          with Cons.IH [OF step(2) [OF I1], of k part] True Fetched Suc show ?thesis by simp
        next
          case (Received bytes fs_ok)
          let ?s2 = "write_file (dest @ ''.tmp'') bytes (request u s)"
          have I2: "I ?s2" by (rule step(2) [OF I1])
          have I3: "I (remove_file (dest @ ''.tmp'') ?s2)" by (rule step(3) [OF I2])
          have f2: "files ?s2 (dest @ ''.tmp'') = Some bytes" by simp
          show ?thesis
          proof (cases "pil bytes")
            case False
            with Cons.IH [OF I2, of k] Cons.IH [OF I3, of k] True Fetched Suc Received
            show ?thesis by (simp add: Let_def)
          next
            case good: True
            show ?thesis
            proof (cases fs_ok)
              case False
              with Cons.IH [OF I2, of k] True Fetched Suc Received good
              show ?thesis by (simp add: Let_def)
            next
              case ok: True
              have "download_rounds pil u dest n (f # fs) s
                  = (Returned True, move_file (dest @ ''.tmp'') dest ?s2)"
                using True Fetched Suc Received good ok by (simp add: Let_def)
              then show ?thesis using I2 good f2 by auto
            qed
          qed
        qed
      qed
    qed
  qed
qed


lemma download_rounds_step:
  "\<exists>t. requests t = requests s @ [u]
      \<and> (download_rounds pil u dest (Suc k) (f # fs) s = download_rounds pil u dest k fs t
         \<or> (\<exists>r. download_rounds pil u dest (Suc k) (f # fs) s = (Returned r, t)))"
proof (cases f)
  case Fetch_raises
  then show ?thesis by (intro exI [of _ "request u s"]) simp
next
  case (Fetched ctype b)
  show ?thesis
  proof (cases "startswith ctype ''image/''")
    case False
    with Fetched show ?thesis by (intro exI [of _ "request u s"]) auto
  next
    case True
    show ?thesis
    proof (cases b)
      case Open_fails
      with True Fetched show ?thesis by (intro exI [of _ "request u s"]) simp
    next
      case (Stream_breaks part)
      with True Fetched show ?thesis
        by (intro exI [of _ "write_file (dest @ ''.tmp'') part (request u s)"]) simp
    next
      case (Received bytes fs_ok)
      let ?s2 = "write_file (dest @ ''.tmp'') bytes (request u s)"
      consider (bad_rm) "\<not> pil bytes" "fs_ok" | (keep) "\<not> fs_ok" | (good) "pil bytes" "fs_ok"
        by blast
      then show ?thesis
      proof cases
        case bad_rm
        with True Fetched Received show ?thesis
          by (intro exI [of _ "remove_file (dest @ ''.tmp'') ?s2"]) (simp add: Let_def)
      next
        case keep
        with True Fetched Received show ?thesis
          by (intro exI [of _ ?s2]) (simp add: Let_def)
      next
        case good
        with True Fetched Received show ?thesis
          by (intro exI [of _ "move_file (dest @ ''.tmp'') dest ?s2"]) (auto simp: Let_def)
      qed
    qed
  qed
qed

lemma download_rounds_requests_le:
  "length (requests s) \<le> length (requests (snd (download_rounds pil u dest n fs s)))
   \<and> length (requests (snd (download_rounds pil u dest n fs s))) \<le> length (requests s) + n"
proof (induction fs arbitrary: n s)
  case Nil
  show ?case by (cases n) simp_all
next
  case (Cons f fs)
  show ?case
  proof (cases n)
    case 0
    then show ?thesis by simp
  next
    case (Suc k)
    obtain t where t: "requests t = requests s @ [u]"
      and alt: "download_rounds pil u dest (Suc k) (f # fs) s = download_rounds pil u dest k fs t
         \<or> (\<exists>r. download_rounds pil u dest (Suc k) (f # fs) s = (Returned r, t))"
      using download_rounds_step by blast
    from alt show ?thesis
    proof
      assume "download_rounds pil u dest (Suc k) (f # fs) s = download_rounds pil u dest k fs t"
      then show ?thesis using Cons.IH [of t k] t Suc by simp
    next
      assume "\<exists>r. download_rounds pil u dest (Suc k) (f # fs) s = (Returned r, t)"
      then show ?thesis using t Suc by auto
    qed
  qed
qed

lemma download_rounds_first_request:
  "length (requests s) < length (requests (snd (download_rounds pil u dest (Suc k) (f # fs) s)))"
proof -
  obtain t where t: "requests t = requests s @ [u]"
    and alt: "download_rounds pil u dest (Suc k) (f # fs) s = download_rounds pil u dest k fs t
       \<or> (\<exists>r. download_rounds pil u dest (Suc k) (f # fs) s = (Returned r, t))"
    using download_rounds_step by blast
  from alt show ?thesis
  proof
    assume "download_rounds pil u dest (Suc k) (f # fs) s = download_rounds pil u dest k fs t"
    then show ?thesis
      using download_rounds_requests_le [of t pil u dest k fs] t by simp
  next
    assume "\<exists>r. download_rounds pil u dest (Suc k) (f # fs) s = (Returned r, t)"
    then show ?thesis using t by auto
  qed
qed

subsection \<open>The skip rule of the download workers\<close>

text \<open>
  C5, as the claim states it, fails for MeituSpider: with validation enabled and a file at
  the destination that does not decode, \<^verbatim>\<open>_download_image\<close> reports success and fetches
  nothing.
\<close>

theorem meitu_skips_corrupt_file:
  "m_verify ((meitu_init ''out'' True) \<lparr>files := [''out/a/001.jpg'' \<mapsto> ''garbage'']\<rparr>)
   \<and> \<not> meitu_validate_image ((=) ''ok'')
         ((meitu_init ''out'' True) \<lparr>files := [''out/a/001.jpg'' \<mapsto> ''garbage'']\<rparr>)
         ''out/a/001.jpg''
   \<and> meitu_download_image ((=) ''ok'') ''https://img/1.jpg'' ''out/a/001.jpg''
        [Some \<lparr>content_type = ''image/jpeg'', content = ''ok'',
               parsed = \<lparr>album_elements = [], paging_next = None, book_pages = None\<rparr>\<rparr>]
        \<lparr>makedirs_ok = True, write_result = Write_ok, remove_ok = True, rename_ok = True\<rparr>
        ((meitu_init ''out'' True) \<lparr>files := [''out/a/001.jpg'' \<mapsto> ''garbage'']\<rparr>)
     = (Returned True, (meitu_init ''out'' True) \<lparr>files := [''out/a/001.jpg'' \<mapsto> ''garbage'']\<rparr>)"
  by (simp add: meitu_download_image_def meitu_init_def path_exists_def meitu_validate_image_def)

text \<open>
  C5, amended. In the sifang crawler \<^verbatim>\<open>download_image\<close> follows the rule: for an existing
  destination it reports success without a request when validation is off, and when
  validation is on and the file decodes; when validation is on and the file does not decode
  it runs the download rounds, which request the image again. In MeituSpider
  \<^verbatim>\<open>_download_image\<close> reports success for every existing destination, without a request and
  without decoding the file, whatever the validation setting.
\<close>

theorem download_image_skip_rule:
  assumes "path_exists s dest" and "path_exists m save_path"
  shows "(\<not> verify s \<longrightarrow> download_image pil image_url dest fs s = (Returned True, s))
    \<and> (verify s \<and> \<not> is_image_corrupted pil s dest
          \<longrightarrow> download_image pil image_url dest fs s = (Returned True, s))
    \<and> (verify s \<and> is_image_corrupted pil s dest
          \<longrightarrow> download_image pil image_url dest fs s = download_rounds pil image_url dest 5 fs s
              \<and> (fs \<noteq> [] \<longrightarrow> length (requests s)
                    < length (requests (snd (download_image pil image_url dest fs s)))))
    \<and> meitu_download_image pil img_url save_path as d m = (Returned True, m)"
proof -
  have "length (requests s) < length (requests (snd (download_rounds pil image_url dest 5 fs s)))"
    if "fs \<noteq> []"
  proof -
    from that obtain f fs' where fs: "fs = f # fs'" by (cases fs) auto
    have five: "(5::nat) = Suc 4" by simp
    show ?thesis unfolding fs five by (rule download_rounds_first_request)
  qed
  then show ?thesis
    using assms by (simp add: download_image_def meitu_download_image_def)
qed

theorem download_image_skip_rule_witness:
  "path_exists ((sifang_init ''out'' True []) \<lparr>files := [''out/a/image_001.jpg'' \<mapsto> ''garbage'']\<rparr>)
       ''out/a/image_001.jpg''
   \<and> path_exists ((meitu_init ''out'' True) \<lparr>files := [''out/a/001.jpg'' \<mapsto> ''garbage'']\<rparr>)
       ''out/a/001.jpg''
   \<and> download_image ((=) ''ok'') ''https://img/1.jpg'' ''out/a/image_001.jpg''
        [Fetched ''image/jpeg'' (Received ''ok'' True)]
        ((sifang_init ''out'' True []) \<lparr>files := [''out/a/image_001.jpg'' \<mapsto> ''garbage'']\<rparr>)
     = download_rounds ((=) ''ok'') ''https://img/1.jpg'' ''out/a/image_001.jpg'' 5
        [Fetched ''image/jpeg'' (Received ''ok'' True)]
        ((sifang_init ''out'' True []) \<lparr>files := [''out/a/image_001.jpg'' \<mapsto> ''garbage'']\<rparr>)
   \<and> requests (snd (download_image ((=) ''ok'') ''https://img/1.jpg'' ''out/a/image_001.jpg''
        [Fetched ''image/jpeg'' (Received ''ok'' True)]
        ((sifang_init ''out'' True []) \<lparr>files := [''out/a/image_001.jpg'' \<mapsto> ''garbage'']\<rparr>)))
     = [''https://img/1.jpg'']
   \<and> meitu_download_image ((=) ''ok'') ''https://img/1.jpg'' ''out/a/001.jpg'' [] 
        \<lparr>makedirs_ok = True, write_result = Write_ok, remove_ok = True, rename_ok = True\<rparr>
        ((meitu_init ''out'' True) \<lparr>files := [''out/a/001.jpg'' \<mapsto> ''garbage'']\<rparr>)
     = (Returned True, (meitu_init ''out'' True) \<lparr>files := [''out/a/001.jpg'' \<mapsto> ''garbage'']\<rparr>)"
proof -
  let ?s = "(sifang_init ''out'' True []) \<lparr>files := [''out/a/image_001.jpg'' \<mapsto> ''garbage'']\<rparr>"
  let ?m = "(meitu_init ''out'' True) \<lparr>files := [''out/a/001.jpg'' \<mapsto> ''garbage'']\<rparr>"
  have h: "path_exists ?s ''out/a/image_001.jpg''"
    and hm: "path_exists ?m ''out/a/001.jpg''"
    by (simp_all add: path_exists_def sifang_init_def meitu_init_def)
  have r: "requests (snd (download_rounds ((=) ''ok'') ''https://img/1.jpg'' ''out/a/image_001.jpg'' 5
        [Fetched ''image/jpeg'' (Received ''ok'' True)] ?s)) = [''https://img/1.jpg'']"
    by (simp add: numeral_eq_Suc startswith_def sifang_init_def Let_def)
  show ?thesis
    using h hm r download_image_skip_rule [OF h hm, of "(=) ''ok''" "''https://img/1.jpg''"
        "[Fetched ''image/jpeg'' (Received ''ok'' True)]" "''https://img/1.jpg''" "[]"
        "\<lparr>makedirs_ok = True, write_result = Write_ok, remove_ok = True, rename_ok = True\<rparr>"]
    by (simp add: sifang_init_def is_image_corrupted_def)
qed

end
